theory Spec2Isabelle
  imports Complex_Main "HOL-Library.Word"
begin

section \<open>ThinkTwice: the analysis client of \<open>frontend/src/App.js\<close>\<close>

text \<open>
  The React component \<open>App\<close> keeps its state in \<open>useState\<close> cells and one
  \<open>useRef\<close> cell. The asynchronous function \<open>analyzeText\<close> runs in two parts: the
  part before \<open>await axios.post(...)\<close>, and the continuation that runs when the
  promise settles. The model is a state record and one function per part; the event
  loop is a step function over the events the browser can deliver.
\<close>

subsection \<open>JavaScript strings\<close>

text \<open>
  A JavaScript string is a sequence of UTF-16 code units: \<open>length\<close> and \<open>slice\<close>
  count code units. \<open>js\<close> embeds an ASCII literal of the source.
\<close>

type_synonym js_string = "16 word list"

definition js :: "string \<Rightarrow> js_string" where
  "js s = map (\<lambda>c. of_nat (of_char c)) s"

text \<open>
  \<open>String.prototype.trim\<close> removes WhiteSpace and LineTerminator code points from both
  ends (ECMAScript): TAB, LF, VT, FF, CR, SP, NBSP, U+1680, U+2000..U+200A, U+2028,
  U+2029, U+202F, U+205F, U+3000 and U+FEFF. All of them are single code units.
\<close>

definition is_whitespace :: "16 word \<Rightarrow> bool" where
  "is_whitespace c =
     (c = 0x9 \<or> c = 0xA \<or> c = 0xB \<or> c = 0xC \<or> c = 0xD \<or> c = 0x20 \<or> c = 0xA0 \<or>
      c = 0x1680 \<or> (0x2000 \<le> c \<and> c \<le> 0x200A) \<or> c = 0x2028 \<or> c = 0x2029 \<or>
      c = 0x202F \<or> c = 0x205F \<or> c = 0x3000 \<or> c = 0xFEFF)"

definition trim :: "js_string \<Rightarrow> js_string" where
  "trim s = rev (dropWhile is_whitespace (rev (dropWhile is_whitespace s)))"

text \<open>\<open>s.slice(0, n)\<close> for a non-negative \<open>n\<close>: the first \<open>n\<close> code units, all of \<open>s\<close> when it is shorter.\<close>

definition slice0 :: "nat \<Rightarrow> 'a list \<Rightarrow> 'a list" where
  "slice0 n s = take n s"

text \<open>\<open>key.replace('_', ' ')\<close> with a string pattern replaces the first occurrence only.\<close>

fun replace_first :: "16 word \<Rightarrow> 16 word \<Rightarrow> js_string \<Rightarrow> js_string" where
  "replace_first a b [] = []"
| "replace_first a b (c # cs) = (if c = a then b # cs else c # replace_first a b cs)"

text \<open>
  A character in the sense of Unicode is a code point: outside the Basic Multilingual
  Plane it takes two code units, a high surrogate followed by a low surrogate.
  \<open>characters\<close> splits a string into its code points as the string iterator
  (\<open>Array.from(s)\<close>) does; a surrogate that stands alone is a character of its own.
\<close>

definition is_high_surrogate :: "16 word \<Rightarrow> bool" where
  "is_high_surrogate c = (0xD800 \<le> c \<and> c \<le> 0xDBFF)"

definition is_low_surrogate :: "16 word \<Rightarrow> bool" where
  "is_low_surrogate c = (0xDC00 \<le> c \<and> c \<le> 0xDFFF)"

fun characters :: "js_string \<Rightarrow> js_string list" where
  "characters [] = []"
| "characters [c] = [[c]]"
| "characters (c # d # cs) =
     (if is_high_surrogate c \<and> is_low_surrogate d
      then [c, d] # characters cs
      else [c] # characters (d # cs))"

text \<open>
  The truncation of a log entry's text read with characters as code points (this is
  not what the code computes; \<open>truncated\<close> below is): the first 50 characters and
  \<open>...\<close> when the text has more than 50 characters, the whole text otherwise.
\<close>

definition truncated_by_characters :: "js_string \<Rightarrow> js_string" where
  "truncated_by_characters s =
     (if length (characters s) > 50
      then concat (take 50 (characters s)) @ js ''...''
      else s)"

subsection \<open>Data\<close>

record simulated_app =
  app_name :: js_string
  placeholder :: js_string

definition SIMULATED_APPS :: "simulated_app list" where
  "SIMULATED_APPS =
     [\<lparr>app_name = js ''Email'', placeholder = js ''Write your email here...''\<rparr>,
      \<lparr>app_name = js ''Chat'', placeholder = js ''Type your message...''\<rparr>,
      \<lparr>app_name = js ''Social Media'', placeholder = js ''What's on your mind?''\<rparr>,
      \<lparr>app_name = js ''Comments'', placeholder = js ''Add a comment...''\<rparr>,
      \<lparr>app_name = js ''Review'', placeholder = js ''Write a review...''\<rparr>]"

text \<open>
  \<open>response.data\<close> of \<open>POST /api/analyze-text\<close>. Numbers are JavaScript doubles; they
  are modelled as reals (the code only stores and compares them). \<open>analysis_scores\<close> is
  the field \<open>analysis\<close> of the response, as \<open>Object.entries\<close> lists it; \<open>other_fields\<close>
  holds whatever else the object carries.
\<close>

record response =
  regret_score :: real
  should_warn :: bool
  analysis_scores :: "(js_string \<times> real) list"
  other_fields :: "(js_string \<times> js_string) list"

text \<open>The object \<open>logEntry\<close>; \<open>log_text\<close> is its field \<open>text\<close>.\<close>

record log_entry =
  timestamp :: js_string
  app :: js_string
  log_text :: js_string
  regretScore :: real
  warned :: bool

text \<open>The error object a rejected promise carries: the code reads \<open>name\<close> and \<open>message\<close>.\<close>

record js_error =
  err_name :: js_string
  err_message :: js_string

datatype json = JString js_string | JNumber real

datatype http_verb = GET | POST

record http_request =
  req_verb :: http_verb
  req_url :: js_string
  req_body :: "(string \<times> json) list"
  req_timeout :: nat

text \<open>
  One invocation of \<open>analyzeText\<close> suspended at its \<open>await\<close>: the request it sent, the
  variables its continuation closes over (\<open>textToAnalyze\<close>, and \<open>isMonitoring\<close> and
  \<open>selectedApp\<close> of the render that created the callback), and what became of the
  request. \<open>Pending\<close>: sent, not answered and not aborted. \<open>Aborted\<close>: its
  \<open>AbortController\<close> was aborted while it was pending; the rejection has not reached the
  \<open>catch\<close> block yet. \<open>Settled\<close>: the continuation has run.
\<close>

datatype call_status = Pending | Aborted | Settled

record call =
  call_request :: http_request
  call_text :: js_string
  call_isMonitoring :: bool
  call_selectedApp :: simulated_app
  call_status :: call_status

text \<open>
  The state cells of \<open>App\<close> that \<open>analyzeText\<close> and \<open>testConnection\<close> touch.
  \<open>abortControllerRef\<close> holds the index of the call whose \<open>AbortController\<close> it refers
  to (\<open>None\<close> for \<open>null\<close>): every call creates a controller of its own, so the calls
  issued so far, in order, stand for the controllers too.
\<close>

record app_state =
  analysis :: "response option"
  loading :: bool
  showWarning :: bool
  selectedApp :: simulated_app
  isMonitoring :: bool
  monitoringLogs :: "log_entry list"
  error :: "js_string option"
  abortControllerRef :: "nat option"
  calls :: "call list"

definition initial_state :: app_state where
  "initial_state =
     \<lparr>analysis = None, loading = False, showWarning = False,
      selectedApp = SIMULATED_APPS ! 0,
      isMonitoring = True, monitoringLogs = [], error = None,
      abortControllerRef = None, calls = []\<rparr>"

text \<open>
  \<open>const API_BASE_URL = process.env.REACT_APP_BACKEND_URL || 'http://localhost:8001'\<close>:
  the environment variable is a parameter; \<open>||\<close> takes the default when it is
  undefined or the empty string.
\<close>

definition API_BASE_URL :: "js_string option \<Rightarrow> js_string" where
  "API_BASE_URL env =
     (case env of
        None \<Rightarrow> js ''http://localhost:8001''
      | Some u \<Rightarrow> if u = [] then js ''http://localhost:8001'' else u)"

subsection \<open>What axios does\<close>

text \<open>
  axios is a library the repository depends on, not code of the repository. The model
  takes from it: a request sent with \<open>signal\<close> is aborted when its controller's
  \<open>abort()\<close> is called while the request is pending, and the promise is then rejected
  with axios's \<open>CanceledError\<close>, whose \<open>name\<close> is \<open>'CanceledError'\<close> and whose
  \<open>message\<close> is \<open>'canceled'\<close>; \<open>abort()\<close> on a controller whose request has settled
  does nothing; a network failure and the \<open>timeout\<close> reject with an \<open>AxiosError\<close>.
\<close>

definition axios_CanceledError :: js_error where
  "axios_CanceledError = \<lparr>err_name = js ''CanceledError'', err_message = js ''canceled''\<rparr>"

definition axios_network_error :: js_error where
  "axios_network_error = \<lparr>err_name = js ''AxiosError'', err_message = js ''Network Error''\<rparr>"


definition abort :: "nat \<Rightarrow> app_state \<Rightarrow> app_state" where
  "abort c st =
     (if c < length (calls st) \<and> call_status (calls st ! c) = Pending
      then st\<lparr>calls := (calls st)[c := (calls st ! c)\<lparr>call_status := Aborted\<rparr>]\<rparr>
      else st)"

subsection \<open>\<open>analyzeText\<close>, up to its \<open>await\<close>\<close>

text \<open>Lines 51-54: \<open>if (abortControllerRef.current) abortControllerRef.current.abort()\<close>.\<close>

definition cancel_previous :: "app_state \<Rightarrow> app_state" where
  "cancel_previous st =
     (case abortControllerRef st of None \<Rightarrow> st | Some c \<Rightarrow> abort c st)"

text \<open>The request of lines 63-69.\<close>

definition analyze_request :: "js_string option \<Rightarrow> js_string \<Rightarrow> real \<Rightarrow> http_request" where
  "analyze_request env textToAnalyze currentThreshold =
     \<lparr>req_verb = POST,
      req_url = API_BASE_URL env @ js ''/api/analyze-text'',
      req_body = [(''text'', JString textToAnalyze), (''threshold'', JNumber currentThreshold)],
      req_timeout = 10000\<rparr>"

text \<open>
  Lines 56-69: a new controller is stored in the ref, \<open>setLoading(true)\<close>,
  \<open>setError(null)\<close>, and the request is sent.
\<close>

definition send_request :: "js_string option \<Rightarrow> js_string \<Rightarrow> real \<Rightarrow> app_state \<Rightarrow> app_state" where
  "send_request env textToAnalyze currentThreshold st =
     st\<lparr>abortControllerRef := Some (length (calls st)),
        loading := True,
        error := None,
        calls := calls st @
          [\<lparr>call_request = analyze_request env textToAnalyze currentThreshold,
            call_text = textToAnalyze,
            call_isMonitoring = isMonitoring st,
            call_selectedApp = selectedApp st,
            call_status = Pending\<rparr>]\<rparr>"

definition analyzeText :: "js_string option \<Rightarrow> js_string \<Rightarrow> real \<Rightarrow> app_state \<Rightarrow> app_state" where
  "analyzeText env textToAnalyze currentThreshold st =
     (if trim textToAnalyze = []
      then st\<lparr>analysis := None, showWarning := False, error := None\<rparr>
      else send_request env textToAnalyze currentThreshold (cancel_previous st))"

subsection \<open>\<open>analyzeText\<close>, after its \<open>await\<close>\<close>

text \<open>Line 79: \<open>textToAnalyze.slice(0, 50) + (textToAnalyze.length > 50 ? '...' : '')\<close>.\<close>

definition truncated :: "js_string \<Rightarrow> js_string" where
  "truncated textToAnalyze =
     slice0 50 textToAnalyze @ (if length textToAnalyze > 50 then js ''...'' else [])"

definition logEntry :: "call \<Rightarrow> response \<Rightarrow> js_string \<Rightarrow> log_entry" where
  "logEntry c data now =
     \<lparr>timestamp = now,
      app = app_name (call_selectedApp c),
      log_text = truncated (call_text c),
      regretScore = regret_score data,
      warned = should_warn data\<rparr>"

text \<open>
  Lines 71-84 and the \<open>finally\<close> block: the promise was fulfilled with \<open>data\<close>; \<open>now\<close>
  is what \<open>new Date().toLocaleTimeString()\<close> returns.
\<close>

definition on_fulfilled :: "call \<Rightarrow> response \<Rightarrow> js_string \<Rightarrow> app_state \<Rightarrow> app_state" where
  "on_fulfilled c data now st =
     (let st1 = st\<lparr>analysis := Some data, showWarning := should_warn data\<rparr>;
          st2 = (if call_isMonitoring c
                 then st1\<lparr>monitoringLogs := logEntry c data now # slice0 9 (monitoringLogs st1)\<rparr>
                 else st1)
      in st2\<lparr>loading := False\<rparr>)"

text \<open>Lines 86-98: the \<open>catch\<close> block and the \<open>finally\<close> block.\<close>

definition on_rejected :: "js_error \<Rightarrow> app_state \<Rightarrow> app_state" where
  "on_rejected e st =
     (if err_name e = js ''AbortError''
      then st\<lparr>loading := False\<rparr>
      else st\<lparr>error := Some (js ''Analysis failed: '' @ err_message e),
              analysis := None,
              showWarning := False,
              loading := False\<rparr>)"

subsection \<open>\<open>testConnection\<close>\<close>

definition testConnection_start :: "app_state \<Rightarrow> app_state" where
  "testConnection_start st = st\<lparr>loading := True\<rparr>"

definition testConnection_ok :: "app_state \<Rightarrow> app_state" where
  "testConnection_ok st = st\<lparr>error := None, loading := False\<rparr>"

definition testConnection_failed :: "js_error \<Rightarrow> app_state \<Rightarrow> app_state" where
  "testConnection_failed e st =
     st\<lparr>error := Some (js ''Connection failed: '' @ err_message e), loading := False\<rparr>"

subsection \<open>The event loop\<close>

text \<open>
  \<open>Analyze t th\<close>: the debounce timer fires and calls \<open>analyzeText(t, th)\<close>.
  \<open>Respond c data now\<close>: the pending request of call \<open>c\<close> is answered with \<open>data\<close>.
  \<open>Fail c e\<close>: the pending request of call \<open>c\<close> fails (network, timeout, status code)
  with the error \<open>e\<close>. \<open>Cancelled c\<close>: the rejection of the aborted call \<open>c\<close> reaches
  its \<open>catch\<close> block. The others are the monitoring toggle, the app selector and
  \<open>testConnection\<close>. An event that cannot happen in the state (an answer for a call
  that is not pending) leaves the state as it is.
\<close>

datatype event =
    Analyze js_string real
  | Respond nat response js_string
  | Fail nat js_error
  | Cancelled nat
  | ToggleMonitoring
  | SelectApp js_string
  | TestConnection
  | TestConnectionOk
  | TestConnectionFailed js_error

definition settle :: "nat \<Rightarrow> app_state \<Rightarrow> app_state" where
  "settle c st = st\<lparr>calls := (calls st)[c := (calls st ! c)\<lparr>call_status := Settled\<rparr>]\<rparr>"

definition has_status :: "nat \<Rightarrow> call_status \<Rightarrow> app_state \<Rightarrow> bool" where
  "has_status c s st = (c < length (calls st) \<and> call_status (calls st ! c) = s)"

fun step :: "js_string option \<Rightarrow> event \<Rightarrow> app_state \<Rightarrow> app_state" where
  "step env (Analyze t th) st = analyzeText env t th st"
| "step env (Respond c data now) st =
     (if has_status c Pending st then on_fulfilled (calls st ! c) data now (settle c st) else st)"
| "step env (Fail c e) st =
     (if has_status c Pending st then on_rejected e (settle c st) else st)"
| "step env (Cancelled c) st =
     (if has_status c Aborted st then on_rejected axios_CanceledError (settle c st) else st)"
| "step env ToggleMonitoring st = st\<lparr>isMonitoring := \<not> isMonitoring st\<rparr>"
| "step env (SelectApp v) st =
     (case find (\<lambda>a. app_name a = v) SIMULATED_APPS of
        Some a \<Rightarrow> st\<lparr>selectedApp := a\<rparr>
      | None \<Rightarrow> st)"
| "step env TestConnection st = testConnection_start st"
| "step env TestConnectionOk st = testConnection_ok st"
| "step env (TestConnectionFailed e) st = testConnection_failed e st"

definition run :: "js_string option \<Rightarrow> event list \<Rightarrow> app_state \<Rightarrow> app_state" where
  "run env evs st = foldl (\<lambda>s e. step env e s) st evs"

text \<open>A request is outstanding when it was sent and has neither been answered nor aborted.\<close>

definition outstanding :: "app_state \<Rightarrow> call list" where
  "outstanding st = filter (\<lambda>c. call_status c = Pending) (calls st)"

text \<open>The invariant of the controller ref: a pending call is the one the ref points to.\<close>

definition ref_inv :: "app_state \<Rightarrow> bool" where
  "ref_inv st = (\<forall>i < length (calls st). call_status (calls st ! i) = Pending \<longrightarrow> abortControllerRef st = Some i)"

text \<open>
  The request of a call is the one \<open>analyzeText\<close> builds: a \<open>POST\<close> to
  \<open>/api/analyze-text\<close> whose body has the fields \<open>text\<close> (the analysed text) and
  \<open>threshold\<close> (a number), in this order, and no other.
\<close>

definition is_analyze_request :: "js_string option \<Rightarrow> call \<Rightarrow> bool" where
  "is_analyze_request env c =
     (req_verb (call_request c) = POST
      \<and> req_url (call_request c) = API_BASE_URL env @ js ''/api/analyze-text''
      \<and> map fst (req_body (call_request c)) = [''text'', ''threshold'']
      \<and> map_of (req_body (call_request c)) ''text'' = Some (JString (call_text c))
      \<and> (case map_of (req_body (call_request c)) ''threshold'' of
            Some (JNumber th) \<Rightarrow> True
          | _ \<Rightarrow> False))"

subsection \<open>What the component renders from the analysis state\<close>

definition getRegretScoreColor :: "real \<Rightarrow> js_string" where
  "getRegretScoreColor score =
     (if score < 0.3 then js ''text-green-500''
      else if score < 0.6 then js ''text-yellow-500''
      else js ''text-red-500'')"

definition getRegretScoreLabel :: "real \<Rightarrow> js_string" where
  "getRegretScoreLabel score =
     (if score < 0.2 then js ''Safe''
      else if score < 0.4 then js ''Caution''
      else if score < 0.6 then js ''Risky''
      else js ''High Risk'')"

text \<open>
  Lines 217-228: the banner is rendered when \<open>error\<close> is truthy (neither null nor the
  empty string); it shows the message and a button \<open>Retry\<close> whose \<open>onClick\<close> is
  \<open>testConnection\<close>.
\<close>

record error_banner =
  banner_message :: js_string
  banner_button :: js_string
  banner_onClick :: event

definition render_error :: "app_state \<Rightarrow> error_banner option" where
  "render_error st =
     (case error st of
        None \<Rightarrow> None
      | Some m \<Rightarrow>
          if m = [] then None
          else Some \<lparr>banner_message = m, banner_button = js ''Retry'',
                     banner_onClick = TestConnection\<rparr>)"

text \<open>Line 292: \<open>showWarning && analysis\<close>.\<close>

definition render_warning :: "app_state \<Rightarrow> bool" where
  "render_warning st = (showWarning st \<and> analysis st \<noteq> None)"

text \<open>
  Lines 304-353: the results panel. Numbers that the source prints with \<open>toFixed\<close> are
  kept as numbers (\<open>percent\<close>); widths are \<open>Math.min(x * 100, 100)\<close>. The products
  are products of reals: the code's are products of doubles and may differ from them in
  the last digits (\<open>0.29 * 100\<close> is \<open>28.999999999999996\<close> there). No theorem below
  depends on the value of a product.
\<close>

record score_row =
  row_label :: js_string
  row_alert :: bool
  row_bar :: js_string
  row_width :: real
  row_percent :: real

definition render_row :: "js_string \<times> real \<Rightarrow> score_row" where
  "render_row kv =
     (case kv of (key, val) \<Rightarrow>
        \<lparr>row_label = replace_first 0x5F 0x20 key,
         row_alert = (val > 0.6),
         row_bar = (if val < 0.3 then js ''bg-green-400 dark:bg-green-300''
                    else if val < 0.6 then js ''bg-yellow-400 dark:bg-yellow-300''
                    else js ''bg-red-400 dark:bg-red-300''),
         row_width = min (val * 100) 100,
         row_percent = val * 100\<rparr>)"

record results_panel =
  panel_label :: js_string
  panel_color :: js_string
  panel_bar :: js_string
  panel_width :: real
  panel_percent :: real
  panel_rows :: "score_row list"

definition render_results :: "app_state \<Rightarrow> results_panel option" where
  "render_results st =
     (case analysis st of
        None \<Rightarrow> None
      | Some a \<Rightarrow>
          Some \<lparr>panel_label = getRegretScoreLabel (regret_score a),
                panel_color = getRegretScoreColor (regret_score a),
                panel_bar = (if regret_score a < 0.3 then js ''bg-green-500 dark:bg-green-400''
                             else if regret_score a < 0.6 then js ''bg-yellow-500 dark:bg-yellow-400''
                             else js ''bg-red-500 dark:bg-red-400''),
                panel_width = min (regret_score a * 100) 100,
                panel_percent = regret_score a * 100,
                panel_rows = map render_row (analysis_scores a)\<rparr>)"

text \<open>Lines 356-383: the feed is rendered when monitoring is on and the list is not empty.\<close>

definition render_feed :: "app_state \<Rightarrow> log_entry list" where
  "render_feed st = (if isMonitoring st \<and> length (monitoringLogs st) > 0 then monitoringLogs st else [])"

record rendered =
  shown_error :: "error_banner option"
  shown_warning :: bool
  shown_results :: "results_panel option"
  shown_feed :: "log_entry list"

definition render :: "app_state \<Rightarrow> rendered" where
  "render st =
     \<lparr>shown_error = render_error st,
      shown_warning = render_warning st,
      shown_results = render_results st,
      shown_feed = render_feed st\<rparr>"

subsection \<open>The backend endpoint\<close>

text \<open>
  Modelled from the spec: the handler of \<open>POST /api/analyze-text\<close>; the backend's
  server code is not among the sources. By the spec the handler forwards the text to a
  pretrained classifier and thresholds its scalar output, and answers
  \<open>{regret_score, should_warn, analysis: {category \<rightarrow> score}}\<close>; a score below the
  threshold yields \<open>should_warn = false\<close>, a score at or above it \<open>should_warn = true\<close>.
  The classifier is a parameter: for a text it gives the regret score and the category
  scores.
\<close>

definition analyze_text_endpoint ::
  "(js_string \<Rightarrow> real \<times> (js_string \<times> real) list) \<Rightarrow> js_string \<Rightarrow> real \<Rightarrow> response" where
  "analyze_text_endpoint classifier txt threshold =
     (case classifier txt of (score, scores) \<Rightarrow>
        \<lparr>regret_score = score,
         should_warn = (threshold \<le> score),
         analysis_scores = scores,
         other_fields = []\<rparr>)"

subsection \<open>Sample data\<close>

definition sample_response :: response where
  "sample_response =
     \<lparr>regret_score = 0.8, should_warn = True,
      analysis_scores = [(js ''toxicity'', 0.8), (js ''severe_toxicity'', 0.1)],
      other_fields = []\<rparr>"

definition calm_response :: response where
  "calm_response =
     \<lparr>regret_score = 0.1, should_warn = False,
      analysis_scores = [(js ''toxicity'', 0.1)],
      other_fields = [(js ''id'', js ''42'')]\<rparr>"

definition old_entry :: log_entry where
  "old_entry =
     \<lparr>timestamp = js ''9:00:00 AM'', app = js ''Chat'', log_text = js ''earlier'',
      regretScore = 0.2, warned = False\<rparr>"

section \<open>Theorems\<close>

subsection \<open>Strings\<close>

lemma all_dropWhile: "list_all P (dropWhile P s) \<longleftrightarrow> list_all P s"
  by (induction s) simp_all

lemma trim_empty_iff: "trim s = [] \<longleftrightarrow> list_all is_whitespace s"
proof -
  have "trim s = [] \<longleftrightarrow> list_all is_whitespace (dropWhile is_whitespace s)"
    by (simp add: trim_def list_all_iff)
  then show ?thesis
    by (simp add: all_dropWhile)
qed

subsection \<open>Basic facts\<close>

lemma run_snoc: "run env (evs @ [e]) st = step env e (run env evs st)"
  by (simp add: run_def)

lemmas trace_defs =
  run_def analyzeText_def trim_def js_def is_whitespace_def cancel_previous_def abort_def
  send_request_def analyze_request_def initial_state_def has_status_def settle_def
  on_fulfilled_def on_rejected_def logEntry_def truncated_def slice0_def Let_def
  SIMULATED_APPS_def axios_CanceledError_def outstanding_def

lemma calls_abort:
  "calls (abort c st) =
     (if c < length (calls st) \<and> call_status (calls st ! c) = Pending
      then (calls st)[c := (calls st ! c)\<lparr>call_status := Aborted\<rparr>] else calls st)"
  by (simp add: abort_def)

lemma list_all_update:
  assumes "list_all P xs" and "i < length xs \<Longrightarrow> P x"
  shows "list_all P (xs[i := x])"
proof (cases "i < length xs")
  case True
  with assms set_update_subset_insert [of xs i x] show ?thesis
    by (auto simp: list_all_iff)
next
  case False
  then have "xs[i := x] = xs"
    by (simp add: list_update_beyond)
  with assms show ?thesis by simp
qed

lemma on_rejected_other:
  assumes "err_name e \<noteq> js ''AbortError''"
  shows "on_rejected e st =
     st\<lparr>error := Some (js ''Analysis failed: '' @ err_message e), analysis := None,
        showWarning := False, loading := False\<rparr>"
  using assms by (simp add: on_rejected_def)

lemma on_rejected_AbortError:
  assumes "err_name e = js ''AbortError''"
  shows "on_rejected e st = st\<lparr>loading := False\<rparr>"
  using assms by (simp add: on_rejected_def)

lemma monitoringLogs_analyzeText [simp]:
  "monitoringLogs (analyzeText env t th st) = monitoringLogs st"
  by (simp add: analyzeText_def send_request_def cancel_previous_def abort_def split: option.splits)

lemma monitoringLogs_settle [simp]: "monitoringLogs (settle c st) = monitoringLogs st"
  by (simp add: settle_def)

lemma monitoringLogs_on_rejected [simp]: "monitoringLogs (on_rejected e st) = monitoringLogs st"
  by (simp add: on_rejected_def)

lemma monitoringLogs_on_fulfilled:
  "monitoringLogs (on_fulfilled c data now st) =
     (if call_isMonitoring c then logEntry c data now # take 9 (monitoringLogs st)
      else monitoringLogs st)"
  by (simp add: on_fulfilled_def slice0_def)

lemma analyzeText_closure:
  assumes "trim t \<noteq> []"
  shows "last (calls (analyzeText env t th st)) =
     \<lparr>call_request = analyze_request env t th, call_text = t,
      call_isMonitoring = isMonitoring st, call_selectedApp = selectedApp st,
      call_status = Pending\<rparr>"
  using assms
  by (simp add: analyzeText_def send_request_def cancel_previous_def abort_def split: option.splits)

subsection \<open>Empty and blank input\<close>

text \<open>
  C2. When the trimmed text is empty, \<open>analyzeText\<close> sends no request (the list of
  calls is the one it found, and so is the controller ref) and leaves the state with
  \<open>analysis\<close> null, \<open>showWarning\<close> false and \<open>error\<close> null; nothing else changes.
\<close>

theorem analyzeText_empty:
  assumes "trim textToAnalyze = []"
  shows "calls (analyzeText env textToAnalyze currentThreshold st) = calls st
       \<and> analysis (analyzeText env textToAnalyze currentThreshold st) = None
       \<and> showWarning (analyzeText env textToAnalyze currentThreshold st) = False
       \<and> error (analyzeText env textToAnalyze currentThreshold st) = None
       \<and> analyzeText env textToAnalyze currentThreshold st
           = st\<lparr>analysis := None, showWarning := False, error := None\<rparr>"
  using assms by (simp add: analyzeText_def)

theorem analyzeText_empty_witness:
  "trim (js '' '') = []
   \<and> calls (analyzeText None (js '' '') 0.5
        (initial_state\<lparr>analysis := Some sample_response, showWarning := True, error := Some (js ''x'')\<rparr>)) = []
   \<and> analysis (analyzeText None (js '' '') 0.5
        (initial_state\<lparr>analysis := Some sample_response, showWarning := True, error := Some (js ''x'')\<rparr>)) = None
   \<and> showWarning (analyzeText None (js '' '') 0.5
        (initial_state\<lparr>analysis := Some sample_response, showWarning := True, error := Some (js ''x'')\<rparr>)) = False
   \<and> error (analyzeText None (js '' '') 0.5
        (initial_state\<lparr>analysis := Some sample_response, showWarning := True, error := Some (js ''x'')\<rparr>)) = None"
proof -
  have blank: "trim (js '' '') = []"
    by (simp add: trim_def js_def is_whitespace_def)
  show ?thesis
    using blank
      analyzeText_empty [OF blank, of None "0.5"
        "initial_state\<lparr>analysis := Some sample_response, showWarning := True, error := Some (js ''x'')\<rparr>"]
    by (simp add: initial_state_def)
qed

text \<open>
  C9. A text made of whitespace only (in the sense of \<open>trim\<close>: ECMAScript's WhiteSpace
  and LineTerminator code units) is handled as the empty text is: the resulting state
  is the one \<open>analyzeText\<close> gives for \<open>''\<close>, no call is added, and \<open>analysis\<close>,
  \<open>showWarning\<close> and \<open>error\<close> are cleared.
\<close>

theorem analyzeText_whitespace_only:
  assumes "list_all is_whitespace textToAnalyze"
  shows "analyzeText env textToAnalyze currentThreshold st
           = analyzeText env [] currentThreshold st
       \<and> calls (analyzeText env textToAnalyze currentThreshold st) = calls st
       \<and> abortControllerRef (analyzeText env textToAnalyze currentThreshold st)
           = abortControllerRef st
       \<and> analysis (analyzeText env textToAnalyze currentThreshold st) = None
       \<and> showWarning (analyzeText env textToAnalyze currentThreshold st) = False
       \<and> error (analyzeText env textToAnalyze currentThreshold st) = None"
proof -
  have "trim textToAnalyze = []"
    using assms by (simp add: trim_empty_iff)
  moreover have "trim ([] :: js_string) = []"
    by (simp add: trim_def)
  ultimately show ?thesis
    by (simp add: analyzeText_def)
qed

theorem analyzeText_whitespace_only_witness:
  "list_all is_whitespace [0x20, 0x9, 0xA, 0x3000]
   \<and> analyzeText None [0x20, 0x9, 0xA, 0x3000] 0.5
        (initial_state\<lparr>analysis := Some sample_response, showWarning := True, error := Some (js ''x'')\<rparr>)
       = initial_state"
proof -
  have ws: "list_all is_whitespace [0x20, 0x9, 0xA, 0x3000]"
    by (simp add: is_whitespace_def)
  show ?thesis
    using ws
      analyzeText_whitespace_only [OF ws, of None "0.5"
        "initial_state\<lparr>analysis := Some sample_response, showWarning := True, error := Some (js ''x'')\<rparr>"]
    by (simp add: analyzeText_def trim_def initial_state_def)
qed

text \<open>
  X1. The early return for a blank text does not touch the controller ref: a request
  that is pending stays pending, and when its answer arrives the analysis and the
  warning flag are set from it, although the text was blank when \<open>analyzeText\<close> was
  last called.
\<close>

theorem blank_text_keeps_pending_request:
  assumes "trim t = []" and "has_status c Pending st"
  shows "has_status c Pending (analyzeText env t th st)
       \<and> abortControllerRef (analyzeText env t th st) = abortControllerRef st
       \<and> analysis (analyzeText env t th st) = None
       \<and> analysis (step env (Respond c data now) (analyzeText env t th st)) = Some data
       \<and> showWarning (step env (Respond c data now) (analyzeText env t th st)) = should_warn data"
proof -
  have blank: "analyzeText env t th st = st\<lparr>analysis := None, showWarning := False, error := None\<rparr>"
    using assms(1) by (simp add: analyzeText_def)
  have pending: "has_status c Pending (analyzeText env t th st)"
    using assms(2) by (simp add: blank has_status_def)
  have answered: "step env (Respond c data now) (analyzeText env t th st)
      = on_fulfilled (calls (analyzeText env t th st) ! c) data now (settle c (analyzeText env t th st))"
    using pending by simp
  show ?thesis
  proof (intro conjI)
    show "has_status c Pending (analyzeText env t th st)"
      by (rule pending)
    show "abortControllerRef (analyzeText env t th st) = abortControllerRef st"
      by (simp add: blank)
    show "analysis (analyzeText env t th st) = None"
      by (simp add: blank)
    show "analysis (step env (Respond c data now) (analyzeText env t th st)) = Some data"
      unfolding answered by (simp add: on_fulfilled_def Let_def)
    show "showWarning (step env (Respond c data now) (analyzeText env t th st)) = should_warn data"
      unfolding answered by (simp add: on_fulfilled_def Let_def)
  qed
qed

theorem blank_text_keeps_pending_request_witness:
  "trim [] = []
   \<and> has_status 0 Pending (run None [Analyze (js ''abc'') 0.5] initial_state)
   \<and> has_status 0 Pending (run None [Analyze (js ''abc'') 0.5, Analyze [] 0.5] initial_state)
   \<and> analysis (run None [Analyze (js ''abc'') 0.5, Analyze [] 0.5,
        Respond 0 sample_response (js ''10:15:00 AM'')] initial_state) = Some sample_response
   \<and> showWarning (run None [Analyze (js ''abc'') 0.5, Analyze [] 0.5,
        Respond 0 sample_response (js ''10:15:00 AM'')] initial_state) = True"
proof -
  let ?st = "run None [Analyze (js ''abc'') 0.5] initial_state"
  have blank: "trim ([] :: js_string) = []"
    by (simp add: trim_def)
  have pending: "has_status 0 Pending ?st"
    by (simp add: trace_defs)
  have r1: "run None [Analyze (js ''abc'') 0.5, Analyze [] 0.5] initial_state
      = analyzeText None [] 0.5 ?st"
    by (simp add: run_def)
  have r2: "run None [Analyze (js ''abc'') 0.5, Analyze [] 0.5,
        Respond 0 sample_response (js ''10:15:00 AM'')] initial_state
      = step None (Respond 0 sample_response (js ''10:15:00 AM'')) (analyzeText None [] 0.5 ?st)"
    by (simp add: run_def)
  have warn: "should_warn sample_response = True"
    by (simp add: sample_response_def)
  from blank_text_keeps_pending_request [OF blank pending, of None "0.5" sample_response "js ''10:15:00 AM''"]
    blank pending
  show ?thesis
    unfolding r1 r2 warn by blast
qed

subsection \<open>One request in flight\<close>

lemma at_most_one:
  assumes "\<And>i. i < length xs \<Longrightarrow> P (xs ! i) \<Longrightarrow> i = k"
  shows "length (filter P xs) \<le> 1"
proof -
  have "{i. i < length xs \<and> P (xs ! i)} \<subseteq> {k}"
    using assms by auto
  then have "card {i. i < length xs \<and> P (xs ! i)} \<le> card {k}"
    by (intro card_mono) auto
  then show ?thesis
    by (simp add: length_filter_conv_card)
qed

lemma ref_inv_outstanding: "ref_inv st \<Longrightarrow> length (outstanding st) \<le> 1"
proof (cases "abortControllerRef st")
  case None
  assume "ref_inv st"
  with None show ?thesis
    unfolding outstanding_def ref_inv_def by (intro at_most_one [where k = 0]) auto
next
  case (Some c)
  assume "ref_inv st"
  with Some show ?thesis
    unfolding outstanding_def ref_inv_def by (intro at_most_one [where k = c]) auto
qed

lemma cancel_previous_none_pending:
  assumes inv: "ref_inv st" and i: "i < length (calls (cancel_previous st))"
  shows "call_status (calls (cancel_previous st) ! i) \<noteq> Pending"
proof (cases "abortControllerRef st")
  case None
  then have "cancel_previous st = st"
    by (simp add: cancel_previous_def)
  with inv i None show ?thesis
    by (auto simp: ref_inv_def)
next
  case (Some c)
  then have cp: "calls (cancel_previous st) = calls (abort c st)"
    by (simp add: cancel_previous_def)
  have len: "i < length (calls st)"
    using i cp by (simp add: calls_abort split: if_splits)
  show ?thesis
  proof (cases "i = c")
    case True
    with len show ?thesis
      by (simp add: cp calls_abort)
  next
    case False
    then have "calls (abort c st) ! i = calls st ! i"
      by (simp add: calls_abort)
    moreover have "call_status (calls st ! i) \<noteq> Pending"
      using inv len Some False by (auto simp: ref_inv_def)
    ultimately show ?thesis
      by (simp add: cp)
  qed
qed

lemma outstanding_cancel_previous: "ref_inv st \<Longrightarrow> outstanding (cancel_previous st) = []"
  using cancel_previous_none_pending [of st]
  by (auto simp: outstanding_def filter_empty_conv in_set_conv_nth)

lemma outstanding_send_request:
  "outstanding (send_request env t th st) = outstanding st @ [last (calls (send_request env t th st))]"
  by (simp add: outstanding_def send_request_def)

lemma ref_inv_analyzeText: "ref_inv st \<Longrightarrow> ref_inv (analyzeText env t th st)"
proof (cases "trim t = []")
  case True
  assume "ref_inv st"
  with True show ?thesis by (simp add: analyzeText_def ref_inv_def)
next
  case False
  assume inv: "ref_inv st"
  have "ref_inv (send_request env t th (cancel_previous st))"
    unfolding ref_inv_def
  proof (intro allI impI)
    fix i
    assume i: "i < length (calls (send_request env t th (cancel_previous st)))"
      and p: "call_status (calls (send_request env t th (cancel_previous st)) ! i) = Pending"
    show "abortControllerRef (send_request env t th (cancel_previous st)) = Some i"
    proof (cases "i < length (calls (cancel_previous st))")
      case True
      with p cancel_previous_none_pending [OF inv True] show ?thesis
        by (simp add: send_request_def nth_append)
    next
      case False
      with i show ?thesis by (simp add: send_request_def)
    qed
  qed
  with False show ?thesis by (simp add: analyzeText_def)
qed

lemma ref_inv_settle:
  assumes "ref_inv st"
  shows "ref_inv (settle c st)"
  unfolding ref_inv_def
proof (intro allI impI)
  fix i
  assume i: "i < length (calls (settle c st))"
    and p: "call_status (calls (settle c st) ! i) = Pending"
  from i have len: "i < length (calls st)"
    by (simp add: settle_def)
  from p len have "i \<noteq> c"
    by (auto simp: settle_def)
  with p have "call_status (calls st ! i) = Pending"
    by (simp add: settle_def)
  with assms len show "abortControllerRef (settle c st) = Some i"
    by (simp add: ref_inv_def settle_def)
qed

lemma ref_inv_on_rejected: "ref_inv (on_rejected e st) = ref_inv st"
  by (simp add: ref_inv_def on_rejected_def)

lemma ref_inv_on_fulfilled: "ref_inv (on_fulfilled c d now st) = ref_inv st"
  by (simp add: ref_inv_def on_fulfilled_def Let_def)

lemma ref_inv_step:
  assumes "ref_inv st"
  shows "ref_inv (step env e st)"
proof (cases e)
  case (Analyze t th)
  with assms show ?thesis by (simp add: ref_inv_analyzeText)
next
  case (Respond c d now)
  with assms show ?thesis by (simp add: ref_inv_on_fulfilled ref_inv_settle)
next
  case (Fail c err)
  with assms show ?thesis by (simp add: ref_inv_on_rejected ref_inv_settle)
next
  case (Cancelled c)
  with assms show ?thesis by (simp add: ref_inv_on_rejected ref_inv_settle)
next
  case ToggleMonitoring
  with assms show ?thesis by (simp add: ref_inv_def)
next
  case (SelectApp v)
  with assms show ?thesis by (simp add: ref_inv_def split: option.splits)
next
  case TestConnection
  with assms show ?thesis by (simp add: ref_inv_def testConnection_start_def)
next
  case TestConnectionOk
  with assms show ?thesis by (simp add: ref_inv_def testConnection_ok_def)
next
  case (TestConnectionFailed err)
  with assms show ?thesis by (simp add: ref_inv_def testConnection_failed_def)
qed

lemma ref_inv_run: "ref_inv (run env evs initial_state)"
proof (induction evs rule: rev_induct)
  case Nil
  show ?case by (simp add: run_def ref_inv_def initial_state_def)
next
  case (snoc e evs)
  then show ?case by (simp add: run_snoc ref_inv_step)
qed

text \<open>
  C3. In every state the component can reach, at most one request is outstanding
  (sent, not answered, not aborted). When \<open>analyzeText\<close> is called with a text that
  is not blank, it first aborts the call the ref points to, after which no request is
  outstanding, and only then sends the new request, which is then the only one
  outstanding.
\<close>

theorem single_request_in_flight:
  "length (outstanding (run env evs initial_state)) \<le> 1
   \<and> (trim t \<noteq> [] \<longrightarrow>
        outstanding (cancel_previous (run env evs initial_state)) = []
      \<and> analyzeText env t th (run env evs initial_state)
          = send_request env t th (cancel_previous (run env evs initial_state))
      \<and> outstanding (analyzeText env t th (run env evs initial_state))
          = [last (calls (analyzeText env t th (run env evs initial_state)))])"
proof -
  let ?s = "run env evs initial_state"
  have inv: "ref_inv ?s"
    by (rule ref_inv_run)
  have one: "length (outstanding ?s) \<le> 1"
    by (rule ref_inv_outstanding [OF inv])
  have none: "outstanding (cancel_previous ?s) = []"
    by (rule outstanding_cancel_previous [OF inv])
  have sent: "analyzeText env t th ?s = send_request env t th (cancel_previous ?s)"
    if "trim t \<noteq> []"
    using that by (simp add: analyzeText_def)
  have new: "outstanding (analyzeText env t th ?s) = [last (calls (analyzeText env t th ?s))]"
    if "trim t \<noteq> []"
    using that none by (simp add: analyzeText_def outstanding_send_request)
  from one none sent new show ?thesis
    by blast
qed

theorem single_request_in_flight_witness:
  "trim (js ''ab'') \<noteq> []
   \<and> length (outstanding (run None [Analyze (js ''a'') 0.5] initial_state)) = 1
   \<and> outstanding (cancel_previous (run None [Analyze (js ''a'') 0.5] initial_state)) = []
   \<and> map call_text (outstanding (analyzeText None (js ''ab'') 0.5
        (run None [Analyze (js ''a'') 0.5] initial_state))) = [js ''ab'']
   \<and> map call_status (calls (analyzeText None (js ''ab'') 0.5
        (run None [Analyze (js ''a'') 0.5] initial_state))) = [Aborted, Pending]"
proof -
  have ne: "trim (js ''ab'') \<noteq> []"
    by (simp add: trim_def js_def is_whitespace_def)
  show ?thesis
    using ne single_request_in_flight [of None "[Analyze (js ''a'') 0.5]" "js ''ab''" "0.5"]
    by (simp add: trace_defs)
qed

subsection \<open>The monitoring log\<close>

lemma monitoringLogs_step:
  "monitoringLogs (step env e st) = monitoringLogs st
   \<or> (\<exists>entry. monitoringLogs (step env e st) = entry # take 9 (monitoringLogs st))"
proof (cases e)
  case (Respond c data now)
  then show ?thesis by (simp add: monitoringLogs_on_fulfilled)
next
  case (SelectApp v)
  then show ?thesis by (simp split: option.splits)
qed (simp_all add: testConnection_start_def testConnection_ok_def testConnection_failed_def)

lemma monitoringLogs_run: "length (monitoringLogs (run env evs initial_state)) \<le> 10"
proof (induction evs rule: rev_induct)
  case Nil
  show ?case by (simp add: run_def initial_state_def)
next
  case (snoc e evs)
  from monitoringLogs_step [of env e "run env evs initial_state"] snoc show ?case
    by (auto simp: run_snoc)
qed

text \<open>
  C10. In every state the component can reach, the monitoring log has at most 10
  entries. Every step either leaves the list as it is or puts one entry in front of
  the first 9 entries of the previous list, so the list is ordered newest first; the
  answer to a pending call made with monitoring on is such a step, and the entry is the
  one built from that answer.
\<close>

theorem monitoringLogs_at_most_ten:
  "length (monitoringLogs (run env evs initial_state)) \<le> 10
   \<and> (monitoringLogs (step env e st) = monitoringLogs st
      \<or> (\<exists>entry. monitoringLogs (step env e st) = entry # take 9 (monitoringLogs st)))
   \<and> (has_status c Pending st \<and> call_isMonitoring (calls st ! c) \<longrightarrow>
        monitoringLogs (step env (Respond c data now) st)
          = logEntry (calls st ! c) data now # take 9 (monitoringLogs st))"
proof -
  have "monitoringLogs (step env (Respond c data now) st)
          = logEntry (calls st ! c) data now # take 9 (monitoringLogs st)"
    if "has_status c Pending st" "call_isMonitoring (calls st ! c)"
    using that by (simp add: monitoringLogs_on_fulfilled)
  with monitoringLogs_run [of env evs] monitoringLogs_step [of env e st] show ?thesis
    by blast
qed

theorem monitoringLogs_at_most_ten_witness:
  "has_status 0 Pending
     (analyzeText None (js ''a'') 0.5 (initial_state\<lparr>monitoringLogs := replicate 10 old_entry\<rparr>))
   \<and> call_isMonitoring
     (calls (analyzeText None (js ''a'') 0.5
        (initial_state\<lparr>monitoringLogs := replicate 10 old_entry\<rparr>)) ! 0)
   \<and> monitoringLogs (step None (Respond 0 sample_response (js ''10:15:00 AM''))
        (analyzeText None (js ''a'') 0.5 (initial_state\<lparr>monitoringLogs := replicate 10 old_entry\<rparr>)))
       = \<lparr>timestamp = js ''10:15:00 AM'', app = js ''Email'', log_text = js ''a'',
          regretScore = 0.8, warned = True\<rparr> # replicate 9 old_entry
   \<and> length (monitoringLogs (run None
        [Analyze (js ''a'') 0.5, Respond 0 sample_response (js ''10:15:00 AM'')] initial_state)) = 1"
proof -
  have pending: "has_status 0 Pending
     (analyzeText None (js ''a'') 0.5 (initial_state\<lparr>monitoringLogs := replicate 10 old_entry\<rparr>))"
    by (simp add: trace_defs)
  have mon: "call_isMonitoring
     (calls (analyzeText None (js ''a'') 0.5
        (initial_state\<lparr>monitoringLogs := replicate 10 old_entry\<rparr>)) ! 0)"
    by (simp add: trace_defs)
  show ?thesis
    using pending mon
      monitoringLogs_at_most_ten [of None
        "[Analyze (js ''a'') 0.5, Respond 0 sample_response (js ''10:15:00 AM'')]"
        "Respond 0 sample_response (js ''10:15:00 AM'')"
        "analyzeText None (js ''a'') 0.5 (initial_state\<lparr>monitoringLogs := replicate 10 old_entry\<rparr>)"
        0 sample_response "js ''10:15:00 AM''"]
    by (simp add: trace_defs sample_response_def)
qed

subsection \<open>The log entry\<close>

lemma truncated_eq:
  "truncated t = (if length t > 50 then take 50 t @ js ''...'' else t)"
  by (simp add: truncated_def slice0_def)

text \<open>
  C8. When the answer to a pending call arrives and the call was made while monitoring
  was on (the value of \<open>isMonitoring\<close> that \<open>analyzeText\<close> closed over, whatever the
  toggle says when the answer arrives), the entry put at the head of the log holds the
  time of the answer, the name of the app selected when the call was made, the score
  and the warned flag of the answer, and the analysed text cut to its first 50 UTF-16
  code units with \<open>...\<close> appended when the text has more than 50 code units, the
  whole text (and no dots) otherwise. The call \<open>analyzeText\<close> makes for a text that is
  not blank holds that text and the monitoring flag and the app of the state it was
  made in.
\<close>

theorem log_entry_truncates_text:
  assumes "has_status c Pending st" and "call_isMonitoring (calls st ! c)"
  shows "monitoringLogs (step env (Respond c data now) st) \<noteq> []
       \<and> hd (monitoringLogs (step env (Respond c data now) st)) =
           \<lparr>timestamp = now,
            app = app_name (call_selectedApp (calls st ! c)),
            log_text = (if length (call_text (calls st ! c)) > 50
                        then take 50 (call_text (calls st ! c)) @ js ''...''
                        else call_text (calls st ! c)),
            regretScore = regret_score data,
            warned = should_warn data\<rparr>
       \<and> (length (call_text (calls st ! c)) > 50 \<longleftrightarrow>
            log_text (hd (monitoringLogs (step env (Respond c data now) st)))
              = take 50 (call_text (calls st ! c)) @ js ''...'')
       \<and> (trim t \<noteq> [] \<longrightarrow>
            call_text (last (calls (analyzeText env t th before))) = t
          \<and> call_isMonitoring (last (calls (analyzeText env t th before))) = isMonitoring before
          \<and> call_selectedApp (last (calls (analyzeText env t th before))) = selectedApp before)"
proof -
  let ?t = "call_text (calls st ! c)"
  let ?logs = "monitoringLogs (step env (Respond c data now) st)"
  have logs: "?logs = logEntry (calls st ! c) data now # take 9 (monitoringLogs st)"
    using assms by (simp add: monitoringLogs_on_fulfilled)
  have entry: "hd ?logs =
      \<lparr>timestamp = now,
       app = app_name (call_selectedApp (calls st ! c)),
       log_text = (if length ?t > 50 then take 50 ?t @ js ''...'' else ?t),
       regretScore = regret_score data,
       warned = should_warn data\<rparr>"
    unfolding logs by (simp add: logEntry_def truncated_eq)
  have nonempty: "?logs \<noteq> []"
    unfolding logs by simp
  have neq: "?t \<noteq> take 50 ?t @ js ''...''" if short: "\<not> length ?t > 50"
  proof
    assume "?t = take 50 ?t @ js ''...''"
    then have "length ?t = length (take 50 ?t @ js ''...'')"
      by (rule arg_cong)
    moreover have "length (take 50 ?t @ js ''...'') = min (length ?t) 50 + 3"
      by (simp add: js_def)
    ultimately show False
      using short by arith
  qed
  have dots: "length ?t > 50 \<longleftrightarrow> log_text (hd ?logs) = take 50 ?t @ js ''...''"
  proof (cases "length ?t > 50")
    case True
    then show ?thesis unfolding entry by simp
  next
    case False
    with neq show ?thesis unfolding entry by simp
  qed
  show ?thesis
  proof (intro conjI)
    show "?logs \<noteq> []"
      by (rule nonempty)
    show "hd ?logs =
      \<lparr>timestamp = now,
       app = app_name (call_selectedApp (calls st ! c)),
       log_text = (if length ?t > 50 then take 50 ?t @ js ''...'' else ?t),
       regretScore = regret_score data,
       warned = should_warn data\<rparr>"
      by (rule entry)
    show "length ?t > 50 \<longleftrightarrow> log_text (hd ?logs) = take 50 ?t @ js ''...''"
      by (rule dots)
    show "trim t \<noteq> [] \<longrightarrow>
            call_text (last (calls (analyzeText env t th before))) = t
          \<and> call_isMonitoring (last (calls (analyzeText env t th before))) = isMonitoring before
          \<and> call_selectedApp (last (calls (analyzeText env t th before))) = selectedApp before"
      by (simp add: analyzeText_closure)
  qed
qed

theorem log_entry_truncates_text_witness:
  "has_status 0 Pending (run None [Analyze (replicate 51 0x61) 0.5] initial_state)
   \<and> call_isMonitoring (calls (run None [Analyze (replicate 51 0x61) 0.5] initial_state) ! 0)
   \<and> hd (monitoringLogs (step None (Respond 0 sample_response (js ''10:15:00 AM''))
        (run None [Analyze (replicate 51 0x61) 0.5] initial_state))) =
       \<lparr>timestamp = js ''10:15:00 AM'', app = js ''Email'',
        log_text = replicate 50 0x61 @ js ''...'',
        regretScore = 0.8, warned = True\<rparr>
   \<and> trim (replicate 51 0x61) \<noteq> []
   \<and> call_isMonitoring (last (calls (analyzeText None (replicate 51 0x61) 0.5 initial_state)))
       = isMonitoring initial_state"
proof -
  have nonblank: "\<not> list_all is_whitespace (replicate 51 (0x61 :: 16 word))"
    by (simp add: list_all_iff is_whitespace_def)
  then have trimmed: "trim (replicate 51 (0x61 :: 16 word)) \<noteq> []"
    by (simp add: trim_empty_iff)
  from nonblank have sent: "run None [Analyze (replicate 51 0x61) 0.5] initial_state
      = send_request None (replicate 51 0x61) 0.5 (cancel_previous initial_state)"
    by (simp add: run_def analyzeText_def trim_empty_iff)
  have pending: "has_status 0 Pending (run None [Analyze (replicate 51 0x61) 0.5] initial_state)"
    unfolding sent
    by (simp add: has_status_def send_request_def cancel_previous_def initial_state_def)
  have mon: "call_isMonitoring (calls (run None [Analyze (replicate 51 0x61) 0.5] initial_state) ! 0)"
    unfolding sent
    by (simp add: send_request_def cancel_previous_def initial_state_def)
  have body: "call_text (calls (run None [Analyze (replicate 51 0x61) 0.5] initial_state) ! 0)
      = replicate 51 0x61"
    unfolding sent
    by (simp add: send_request_def cancel_previous_def initial_state_def)
  have app: "app_name (call_selectedApp
      (calls (run None [Analyze (replicate 51 0x61) 0.5] initial_state) ! 0)) = js ''Email''"
    unfolding sent
    by (simp add: send_request_def cancel_previous_def initial_state_def SIMULATED_APPS_def)
  have cut: "(if length (replicate 51 (0x61 :: 16 word)) > 50
       then take 50 (replicate 51 (0x61 :: 16 word)) @ js ''...''
       else replicate 51 0x61) = replicate 50 0x61 @ js ''...''"
    by simp
  have score: "regret_score sample_response = 0.8" "should_warn sample_response = True"
    by (simp_all add: sample_response_def)
  have "hd (monitoringLogs (step None (Respond 0 sample_response (js ''10:15:00 AM''))
        (run None [Analyze (replicate 51 0x61) 0.5] initial_state))) =
       \<lparr>timestamp = js ''10:15:00 AM'', app = js ''Email'',
        log_text = replicate 50 0x61 @ js ''...'',
        regretScore = 0.8, warned = True\<rparr>"
    using log_entry_truncates_text [OF pending mon, of None sample_response "js ''10:15:00 AM''"]
    unfolding body app cut score
    by (rule conjunct1 [OF conjunct2])
  moreover have "call_isMonitoring (last (calls (analyzeText None (replicate 51 0x61) 0.5 initial_state)))
       = isMonitoring initial_state"
    using trimmed
      log_entry_truncates_text [OF pending mon, where t = "replicate 51 0x61" and env = None
        and th = "0.5" and before = initial_state]
    by blast
  ultimately show ?thesis
    using pending mon trimmed by (intro conjI)
qed

lemma characters_Cons:
  assumes "\<not> is_high_surrogate c"
  shows "characters (c # cs) = [c] # characters cs"
  using assms by (cases cs) simp_all

lemma characters_replicate:
  assumes "\<not> is_high_surrogate c"
  shows "characters (replicate n c @ cs) = replicate n [c] @ characters cs"
  using assms by (induction n) (simp_all add: characters_Cons)

text \<open>
  C8, as worded with characters: the text of 49 letters \<open>a\<close> followed by U+1F600
  (the code units \<open>0xD83D 0xDE00\<close>) has 50 characters, so by the wording its entry
  holds the whole text and no dots. It has 51 code units: the entry the code logs holds
  the 49 letters, the high surrogate alone and \<open>...\<close>. And a call made while
  monitoring was off logs nothing, although monitoring is on when its answer arrives.
\<close>

theorem log_entry_characters_counterexample:
  "length (characters (replicate 49 0x61 @ [0xD83D, 0xDE00])) = 50
   \<and> truncated_by_characters (replicate 49 0x61 @ [0xD83D, 0xDE00])
       = replicate 49 0x61 @ [0xD83D, 0xDE00]
   \<and> isMonitoring (run None [Analyze (replicate 49 0x61 @ [0xD83D, 0xDE00]) 0.5] initial_state)
   \<and> log_text (hd (monitoringLogs
        (run None [Analyze (replicate 49 0x61 @ [0xD83D, 0xDE00]) 0.5,
                   Respond 0 sample_response (js ''10:15:00 AM'')] initial_state)))
       = replicate 49 0x61 @ [0xD83D] @ js ''...''
   \<and> log_text (hd (monitoringLogs
        (run None [Analyze (replicate 49 0x61 @ [0xD83D, 0xDE00]) 0.5,
                   Respond 0 sample_response (js ''10:15:00 AM'')] initial_state)))
       \<noteq> truncated_by_characters (replicate 49 0x61 @ [0xD83D, 0xDE00])
   \<and> isMonitoring (run None [ToggleMonitoring, Analyze (js ''a'') 0.5, ToggleMonitoring]
        initial_state)
   \<and> has_status 0 Pending (run None [ToggleMonitoring, Analyze (js ''a'') 0.5, ToggleMonitoring]
        initial_state)
   \<and> analysis (run None [ToggleMonitoring, Analyze (js ''a'') 0.5, ToggleMonitoring,
                          Respond 0 sample_response (js ''10:15:00 AM'')] initial_state)
       = Some sample_response
   \<and> monitoringLogs (run None [ToggleMonitoring, Analyze (js ''a'') 0.5, ToggleMonitoring,
                                Respond 0 sample_response (js ''10:15:00 AM'')] initial_state)
       = []"
proof -
  let ?t = "replicate 49 0x61 @ [0xD83D, 0xDE00] :: js_string"
  have letter: "\<not> is_high_surrogate 0x61"
    by (simp add: is_high_surrogate_def)
  have chars: "characters ?t = replicate 49 [0x61] @ [[0xD83D, 0xDE00]]"
    by (simp add: characters_replicate [OF letter] is_high_surrogate_def is_low_surrogate_def)
  have count: "length (characters ?t) = 50"
    unfolding chars by simp
  have whole: "truncated_by_characters ?t = ?t"
    by (simp add: truncated_by_characters_def count)
  have units: "truncated ?t = replicate 49 0x61 @ [0xD83D] @ js ''...''"
    by (simp add: truncated_eq)
  have "\<not> list_all is_whitespace ?t"
    by (simp add: list_all_iff is_whitespace_def)
  then have nonblank: "trim ?t \<noteq> []"
    by (simp only: trim_empty_iff not_False_eq_True)
  have sent: "run None [Analyze ?t 0.5] initial_state
      = send_request None ?t 0.5 (cancel_previous initial_state)"
    by (simp add: run_def analyzeText_def nonblank)
  have on: "isMonitoring (run None [Analyze ?t 0.5] initial_state)"
    unfolding sent by (simp add: send_request_def cancel_previous_def initial_state_def)
  have "run None ([Analyze ?t 0.5] @ [Respond 0 sample_response (js ''10:15:00 AM'')]) initial_state
      = step None (Respond 0 sample_response (js ''10:15:00 AM''))
          (send_request None ?t 0.5 (cancel_previous initial_state))"
    unfolding run_snoc sent by (rule refl)
  then have "log_text (hd (monitoringLogs
        (run None ([Analyze ?t 0.5] @ [Respond 0 sample_response (js ''10:15:00 AM'')]) initial_state)))
      = truncated ?t"
    by (simp add: has_status_def send_request_def cancel_previous_def initial_state_def
        monitoringLogs_on_fulfilled logEntry_def)
  then have logged: "log_text (hd (monitoringLogs
        (run None [Analyze ?t 0.5, Respond 0 sample_response (js ''10:15:00 AM'')] initial_state)))
      = replicate 49 0x61 @ [0xD83D] @ js ''...''"
    unfolding units by simp
  have differ: "replicate 49 0x61 @ [0xD83D] @ js ''...'' \<noteq> ?t"
  proof
    assume "replicate 49 0x61 @ [0xD83D] @ js ''...'' = ?t"
    then have "length (replicate 49 (0x61 :: 16 word) @ [0xD83D] @ js ''...'') = length ?t"
      by (rule arg_cong)
    then show False
      by (simp add: js_def)
  qed
  have toggled:
    "isMonitoring (run None [ToggleMonitoring, Analyze (js ''a'') 0.5, ToggleMonitoring] initial_state)"
    "has_status 0 Pending
       (run None [ToggleMonitoring, Analyze (js ''a'') 0.5, ToggleMonitoring] initial_state)"
    "analysis (run None [ToggleMonitoring, Analyze (js ''a'') 0.5, ToggleMonitoring,
        Respond 0 sample_response (js ''10:15:00 AM'')] initial_state) = Some sample_response"
    "monitoringLogs (run None [ToggleMonitoring, Analyze (js ''a'') 0.5, ToggleMonitoring,
        Respond 0 sample_response (js ''10:15:00 AM'')] initial_state) = []"
    by (simp_all add: trace_defs)
  from count whole on logged differ toggled show ?thesis
    unfolding whole logged by (intro conjI)
qed

subsection \<open>Failed requests\<close>




subsection \<open>The threshold\<close>

text \<open>
  C1. The response of the endpoint has \<open>should_warn = false\<close> when the regret score is
  below the request's threshold and \<open>should_warn = true\<close> when it is at or above it,
  for every classifier, text and threshold.
\<close>

theorem should_warn_by_threshold:
  "(regret_score (analyze_text_endpoint classifier txt threshold) < threshold \<longrightarrow>
      should_warn (analyze_text_endpoint classifier txt threshold) = False)
   \<and> (threshold \<le> regret_score (analyze_text_endpoint classifier txt threshold) \<longrightarrow>
      should_warn (analyze_text_endpoint classifier txt threshold) = True)"
  by (simp add: analyze_text_endpoint_def split: prod.splits)

theorem should_warn_by_threshold_witness:
  "regret_score (analyze_text_endpoint (\<lambda>t. (0.3, [(js ''toxicity'', 0.3)])) (js ''hello'') 0.5) < 0.5
   \<and> should_warn (analyze_text_endpoint (\<lambda>t. (0.3, [(js ''toxicity'', 0.3)])) (js ''hello'') 0.5) = False
   \<and> 0.5 \<le> regret_score (analyze_text_endpoint (\<lambda>t. (0.5, [(js ''toxicity'', 0.5)])) (js ''hello'') 0.5)
   \<and> should_warn (analyze_text_endpoint (\<lambda>t. (0.5, [(js ''toxicity'', 0.5)])) (js ''hello'') 0.5) = True"
proof -
  have below: "regret_score (analyze_text_endpoint (\<lambda>t. (0.3, [(js ''toxicity'', 0.3)])) (js ''hello'') 0.5) < 0.5"
    by (simp add: analyze_text_endpoint_def)
  have at: "0.5 \<le> regret_score (analyze_text_endpoint (\<lambda>t. (0.5, [(js ''toxicity'', 0.5)])) (js ''hello'') 0.5)"
    by (simp add: analyze_text_endpoint_def)
  from below at
    should_warn_by_threshold [of "\<lambda>t. (0.3, [(js ''toxicity'', 0.3)])" "js ''hello''" "0.5"]
    should_warn_by_threshold [of "\<lambda>t. (0.5, [(js ''toxicity'', 0.5)])" "js ''hello''" "0.5"]
  show ?thesis
    by blast
qed

subsection \<open>Cancelled requests\<close>

lemma axios_CanceledError_name: "err_name axios_CanceledError \<noteq> js ''AbortError''"
  by (simp add: axios_CanceledError_def js_def)

lemma on_rejected_CanceledError:
  "on_rejected axios_CanceledError st =
     st\<lparr>error := Some (js ''Analysis failed: canceled''), analysis := None,
        showWarning := False, loading := False\<rparr>"
  by (simp add: on_rejected_other [OF axios_CanceledError_name])
     (simp add: axios_CanceledError_def js_def)

lemma step_Cancelled:
  assumes "has_status c Aborted st"
  shows "step env (Cancelled c) st =
     (settle c st)\<lparr>error := Some (js ''Analysis failed: canceled''), analysis := None,
        showWarning := False, loading := False\<rparr>"
  using assms by (simp add: on_rejected_CanceledError)

text \<open>
  C4. The \<open>catch\<close> block ignores an error only when its name is \<open>'AbortError'\<close>. The
  error axios rejects an aborted request with is named \<open>'CanceledError'\<close>, so the
  cancellation is handled as a failure. Here the first text was analysed and its result
  is shown; a request for a second text is in flight when a third text supersedes it.
  When the rejection of the aborted request is handled, the error state is set to
  \<open>Analysis failed: canceled\<close>, the analysis is cleared, the warning flag is reset, and
  the error banner is rendered.
\<close>

theorem cancelled_request_is_reported:
  "has_status 1 Aborted
     (run None [Analyze (js ''a'') 0.5, Respond 0 sample_response (js ''10:15:00 AM''),
                Analyze (js ''ab'') 0.5, Analyze (js ''abc'') 0.5] initial_state)
   \<and> error
     (run None [Analyze (js ''a'') 0.5, Respond 0 sample_response (js ''10:15:00 AM''),
                Analyze (js ''ab'') 0.5, Analyze (js ''abc'') 0.5] initial_state) = None
   \<and> analysis
     (run None [Analyze (js ''a'') 0.5, Respond 0 sample_response (js ''10:15:00 AM''),
                Analyze (js ''ab'') 0.5, Analyze (js ''abc'') 0.5] initial_state) = Some sample_response
   \<and> showWarning
     (run None [Analyze (js ''a'') 0.5, Respond 0 sample_response (js ''10:15:00 AM''),
                Analyze (js ''ab'') 0.5, Analyze (js ''abc'') 0.5] initial_state) = True
   \<and> error
     (run None [Analyze (js ''a'') 0.5, Respond 0 sample_response (js ''10:15:00 AM''),
                Analyze (js ''ab'') 0.5, Analyze (js ''abc'') 0.5, Cancelled 1] initial_state)
       = Some (js ''Analysis failed: canceled'')
   \<and> analysis
     (run None [Analyze (js ''a'') 0.5, Respond 0 sample_response (js ''10:15:00 AM''),
                Analyze (js ''ab'') 0.5, Analyze (js ''abc'') 0.5, Cancelled 1] initial_state) = None
   \<and> showWarning
     (run None [Analyze (js ''a'') 0.5, Respond 0 sample_response (js ''10:15:00 AM''),
                Analyze (js ''ab'') 0.5, Analyze (js ''abc'') 0.5, Cancelled 1] initial_state) = False
   \<and> render_error
     (run None [Analyze (js ''a'') 0.5, Respond 0 sample_response (js ''10:15:00 AM''),
                Analyze (js ''ab'') 0.5, Analyze (js ''abc'') 0.5, Cancelled 1] initial_state)
       = Some \<lparr>banner_message = js ''Analysis failed: canceled'',
               banner_button = js ''Retry'', banner_onClick = TestConnection\<rparr>"
proof -
  let ?evs = "[Analyze (js ''a'') 0.5, Respond 0 sample_response (js ''10:15:00 AM''),
                Analyze (js ''ab'') 0.5, Analyze (js ''abc'') 0.5]"
  let ?st = "run None ?evs initial_state"
  have aborted: "has_status 1 Aborted ?st"
    by (simp add: trace_defs)
  have before: "error ?st = None" "analysis ?st = Some sample_response" "showWarning ?st = True"
    by (simp_all add: trace_defs sample_response_def)
  have "run None (?evs @ [Cancelled 1]) initial_state = step None (Cancelled 1) ?st"
    by (rule run_snoc)
  then have after: "run None (?evs @ [Cancelled 1]) initial_state =
      (settle 1 ?st)\<lparr>error := Some (js ''Analysis failed: canceled''), analysis := None,
        showWarning := False, loading := False\<rparr>"
    by (simp only: step_Cancelled [OF aborted])
  have shown: "error (run None (?evs @ [Cancelled 1]) initial_state) = Some (js ''Analysis failed: canceled'')"
    "analysis (run None (?evs @ [Cancelled 1]) initial_state) = None"
    "showWarning (run None (?evs @ [Cancelled 1]) initial_state) = False"
    "render_error (run None (?evs @ [Cancelled 1]) initial_state)
       = Some \<lparr>banner_message = js ''Analysis failed: canceled'',
               banner_button = js ''Retry'', banner_onClick = TestConnection\<rparr>"
    unfolding after by (simp_all add: render_error_def js_def)
  from aborted before shown show ?thesis
    by simp
qed

text \<open>
  C5. A request for \<open>a\<close> is superseded and cancelled by a request for \<open>ab\<close>. The
  rejection of the cancelled request is then handled as a failure (its error is not
  named \<open>'AbortError'\<close>), and after the answer for \<open>ab\<close> has arrived the component
  shows the result for \<open>ab\<close> together with the error banner of the cancelled request
  for \<open>a\<close>.
\<close>

theorem superseded_request_updates_state:
  "map call_status
     (calls (run None [Analyze (js ''a'') 0.5, Analyze (js ''ab'') 0.5] initial_state))
       = [Aborted, Pending]
   \<and> error (run None [Analyze (js ''a'') 0.5, Analyze (js ''ab'') 0.5] initial_state) = None
   \<and> error (run None [Analyze (js ''a'') 0.5, Analyze (js ''ab'') 0.5, Cancelled 0] initial_state)
       = Some (js ''Analysis failed: canceled'')
   \<and> loading (run None [Analyze (js ''a'') 0.5, Analyze (js ''ab'') 0.5, Cancelled 0] initial_state)
       = False
   \<and> analysis (run None [Analyze (js ''a'') 0.5, Analyze (js ''ab'') 0.5, Cancelled 0,
                         Respond 1 calm_response (js ''10:15:01 AM'')] initial_state)
       = Some calm_response
   \<and> shown_error (render (run None [Analyze (js ''a'') 0.5, Analyze (js ''ab'') 0.5, Cancelled 0,
                         Respond 1 calm_response (js ''10:15:01 AM'')] initial_state))
       = Some \<lparr>banner_message = js ''Analysis failed: canceled'',
               banner_button = js ''Retry'', banner_onClick = TestConnection\<rparr>"
  by (simp add: trace_defs render_def render_error_def)

subsection \<open>The request and the response\<close>

lemma is_analyze_request_status [simp]:
  "is_analyze_request env (c\<lparr>call_status := s\<rparr>) = is_analyze_request env c"
  by (simp add: is_analyze_request_def)

lemma requests_abort:
  assumes "list_all (is_analyze_request env) (calls st)"
  shows "list_all (is_analyze_request env) (calls (abort c st))"
proof (cases "c < length (calls st) \<and> call_status (calls st ! c) = Pending")
  case True
  then have "is_analyze_request env (calls st ! c)"
    using assms by (simp add: list_all_length)
  with True assms show ?thesis
    by (simp add: abort_def list_all_update)
next
  case False
  with assms show ?thesis by (auto simp: abort_def)
qed

lemma requests_settle:
  assumes "list_all (is_analyze_request env) (calls st)"
  shows "list_all (is_analyze_request env) (calls (settle c st))"
proof -
  have "is_analyze_request env (calls st ! c)" if "c < length (calls st)"
    using assms that by (simp add: list_all_length)
  with assms show ?thesis
    by (simp add: settle_def list_all_update)
qed

lemma requests_analyzeText:
  assumes "list_all (is_analyze_request env) (calls st)"
  shows "list_all (is_analyze_request env) (calls (analyzeText env t th st))"
proof (cases "trim t = []")
  case True
  with assms show ?thesis by (simp add: analyzeText_def)
next
  case False
  have "list_all (is_analyze_request env) (calls (cancel_previous st))"
    using assms by (simp add: cancel_previous_def requests_abort split: option.splits)
  with False show ?thesis
    by (simp add: analyzeText_def send_request_def is_analyze_request_def analyze_request_def)
qed

lemma requests_step:
  assumes "list_all (is_analyze_request env) (calls st)"
  shows "list_all (is_analyze_request env) (calls (step env e st))"
proof (cases e)
  case (Analyze t th)
  with assms show ?thesis by (simp add: requests_analyzeText)
next
  case (Respond c d now)
  with requests_settle [OF assms, of c] assms show ?thesis
    by (simp add: on_fulfilled_def Let_def)
next
  case (Fail c err)
  with requests_settle [OF assms, of c] assms show ?thesis
    by (simp add: on_rejected_def)
next
  case (Cancelled c)
  with requests_settle [OF assms, of c] assms show ?thesis
    by (simp add: on_rejected_def)
next
  case ToggleMonitoring
  with assms show ?thesis by simp
next
  case (SelectApp v)
  with assms show ?thesis by (simp split: option.splits)
next
  case TestConnection
  with assms show ?thesis by (simp add: testConnection_start_def)
next
  case TestConnectionOk
  with assms show ?thesis by (simp add: testConnection_ok_def)
next
  case (TestConnectionFailed err)
  with assms show ?thesis by (simp add: testConnection_failed_def)
qed

lemma requests_run: "list_all (is_analyze_request env) (calls (run env evs initial_state))"
proof (induction evs rule: rev_induct)
  case Nil
  show ?case by (simp add: run_def initial_state_def)
next
  case (snoc e evs)
  then show ?case by (simp add: run_snoc requests_step)
qed

lemma render_on_fulfilled:
  "render (on_fulfilled c d now st) =
     \<lparr>shown_error = render_error st,
      shown_warning = should_warn d,
      shown_results =
        Some \<lparr>panel_label = getRegretScoreLabel (regret_score d),
              panel_color = getRegretScoreColor (regret_score d),
              panel_bar = (if regret_score d < 0.3 then js ''bg-green-500 dark:bg-green-400''
                           else if regret_score d < 0.6 then js ''bg-yellow-500 dark:bg-yellow-400''
                           else js ''bg-red-500 dark:bg-red-400''),
              panel_width = min (regret_score d * 100) 100,
              panel_percent = regret_score d * 100,
              panel_rows = map render_row (analysis_scores d)\<rparr>,
      shown_feed =
        (if isMonitoring st \<and> call_isMonitoring c
         then \<lparr>timestamp = now, app = app_name (call_selectedApp c),
               log_text = truncated (call_text c),
               regretScore = regret_score d, warned = should_warn d\<rparr>
              # take 9 (monitoringLogs st)
         else render_feed st)\<rparr>"
  by (simp add: render_def on_fulfilled_def Let_def render_error_def render_warning_def
      render_results_def render_feed_def logEntry_def slice0_def)

text \<open>
  C7. Every call the component has made, in every state it can reach, carries a \<open>POST\<close>
  to \<open>/api/analyze-text\<close> whose body has exactly the fields \<open>text\<close> and \<open>threshold\<close>;
  \<open>analyzeText\<close> builds it from its two arguments. Of the response, the component
  reads \<open>regret_score\<close>, \<open>should_warn\<close> and \<open>analysis\<close> and nothing else: two responses
  that agree on these three fields give the same warning flag, the same log and the same
  rendering, whatever their other fields; and each of the three is read, since changing
  it alone changes what is rendered.
\<close>

theorem request_and_response_fields:
  "list_all (is_analyze_request env) (calls (run env evs initial_state))
   \<and> (trim t \<noteq> [] \<longrightarrow>
        call_request (last (calls (analyzeText env t th st))) =
          \<lparr>req_verb = POST, req_url = API_BASE_URL env @ js ''/api/analyze-text'',
           req_body = [(''text'', JString t), (''threshold'', JNumber th)],
           req_timeout = 10000\<rparr>)
   \<and> (regret_score d = regret_score d' \<and> should_warn d = should_warn d'
        \<and> analysis_scores d = analysis_scores d' \<longrightarrow>
        render (on_fulfilled c d now st) = render (on_fulfilled c d' now st)
        \<and> showWarning (on_fulfilled c d now st) = showWarning (on_fulfilled c d' now st)
        \<and> monitoringLogs (on_fulfilled c d now st) = monitoringLogs (on_fulfilled c d' now st))
   \<and> shown_results (render (on_fulfilled c (d\<lparr>regret_score := 0.1\<rparr>) now st))
       \<noteq> shown_results (render (on_fulfilled c (d\<lparr>regret_score := 0.9\<rparr>) now st))
   \<and> shown_warning (render (on_fulfilled c (d\<lparr>should_warn := True\<rparr>) now st))
       \<noteq> shown_warning (render (on_fulfilled c (d\<lparr>should_warn := False\<rparr>) now st))
   \<and> shown_results (render (on_fulfilled c (d\<lparr>analysis_scores := []\<rparr>) now st))
       \<noteq> shown_results (render (on_fulfilled c (d\<lparr>analysis_scores := [(k, v)]\<rparr>) now st))"
proof (intro conjI impI)
  show "list_all (is_analyze_request env) (calls (run env evs initial_state))"
    by (rule requests_run)
  show "call_request (last (calls (analyzeText env t th st))) =
          \<lparr>req_verb = POST, req_url = API_BASE_URL env @ js ''/api/analyze-text'',
           req_body = [(''text'', JString t), (''threshold'', JNumber th)],
           req_timeout = 10000\<rparr>" if "trim t \<noteq> []"
    using that by (simp add: analyzeText_def send_request_def analyze_request_def)
  assume same: "regret_score d = regret_score d' \<and> should_warn d = should_warn d'
        \<and> analysis_scores d = analysis_scores d'"
  then show "render (on_fulfilled c d now st) = render (on_fulfilled c d' now st)"
    by (simp add: render_on_fulfilled)
  from same show "showWarning (on_fulfilled c d now st) = showWarning (on_fulfilled c d' now st)"
    by (simp add: on_fulfilled_def Let_def)
  from same show "monitoringLogs (on_fulfilled c d now st) = monitoringLogs (on_fulfilled c d' now st)"
    by (simp add: monitoringLogs_on_fulfilled logEntry_def)
next
  show "shown_results (render (on_fulfilled c (d\<lparr>regret_score := 0.1\<rparr>) now st))
       \<noteq> shown_results (render (on_fulfilled c (d\<lparr>regret_score := 0.9\<rparr>) now st))"
    by (simp add: render_on_fulfilled)
  show "shown_warning (render (on_fulfilled c (d\<lparr>should_warn := True\<rparr>) now st))
       \<noteq> shown_warning (render (on_fulfilled c (d\<lparr>should_warn := False\<rparr>) now st))"
    by (simp add: render_on_fulfilled)
  show "shown_results (render (on_fulfilled c (d\<lparr>analysis_scores := []\<rparr>) now st))
       \<noteq> shown_results (render (on_fulfilled c (d\<lparr>analysis_scores := [(k, v)]\<rparr>) now st))"
    by (simp add: render_on_fulfilled)
qed

theorem request_and_response_fields_witness:
  "trim (js ''hello'') \<noteq> []
   \<and> call_request (last (calls (analyzeText None (js ''hello'') 0.5 initial_state))) =
       \<lparr>req_verb = POST, req_url = js ''http://localhost:8001/api/analyze-text'',
        req_body = [(''text'', JString (js ''hello'')), (''threshold'', JNumber 0.5)],
        req_timeout = 10000\<rparr>
   \<and> regret_score sample_response
       = regret_score (sample_response\<lparr>other_fields := [(js ''id'', js ''7'')]\<rparr>)
   \<and> should_warn sample_response
       = should_warn (sample_response\<lparr>other_fields := [(js ''id'', js ''7'')]\<rparr>)
   \<and> analysis_scores sample_response
       = analysis_scores (sample_response\<lparr>other_fields := [(js ''id'', js ''7'')]\<rparr>)
   \<and> sample_response \<noteq> sample_response\<lparr>other_fields := [(js ''id'', js ''7'')]\<rparr>
   \<and> render (on_fulfilled (calls (analyzeText None (js ''hello'') 0.5 initial_state) ! 0)
         sample_response (js ''10:15:00 AM'') initial_state)
       = render (on_fulfilled (calls (analyzeText None (js ''hello'') 0.5 initial_state) ! 0)
         (sample_response\<lparr>other_fields := [(js ''id'', js ''7'')]\<rparr>) (js ''10:15:00 AM'')
         initial_state)
   \<and> list_all (is_analyze_request None)
       (calls (run None [Analyze (js ''a'') 0.5, Analyze (js ''hello'') 0.7] initial_state))"
proof -
  let ?d' = "sample_response\<lparr>other_fields := [(js ''id'', js ''7'')]\<rparr>"
  have nonblank: "trim (js ''hello'') \<noteq> []"
    by (simp add: trim_def js_def is_whitespace_def)
  have same: "regret_score sample_response = regret_score ?d'
      \<and> should_warn sample_response = should_warn ?d'
      \<and> analysis_scores sample_response = analysis_scores ?d'"
    by simp
  have differ: "sample_response \<noteq> ?d'"
  proof
    assume "sample_response = ?d'"
    then have "other_fields sample_response = other_fields ?d'"
      by (rule arg_cong)
    then show False
      by (simp add: sample_response_def)
  qed
  have url: "API_BASE_URL None @ js ''/api/analyze-text'' = js ''http://localhost:8001/api/analyze-text''"
    by (simp add: API_BASE_URL_def js_def)
  note fields = request_and_response_fields [of None
      "[Analyze (js ''a'') 0.5, Analyze (js ''hello'') 0.7]" "js ''hello''" "0.5" initial_state
      sample_response ?d'
      "calls (analyzeText None (js ''hello'') 0.5 initial_state) ! 0" "js ''10:15:00 AM''"
      "js ''toxicity''" "0.5"]
  from fields [unfolded url] nonblank same differ show ?thesis
    by blast
qed

end
